theory Spec2Isabelle
  imports Main
begin

section \<open>Session types (src/types/auth.ts)\<close>

text \<open>
  The interfaces \<open>Role\<close>, \<open>Company\<close>, \<open>Site\<close>, \<open>UserRole\<close> and \<open>User\<close>
  of \<open>src/types/auth.ts\<close>. Each field keeps its source name behind a prefix for its
  interface (\<open>id\<close> and \<open>name\<close> occur in every interface). An optional field
  (\<open>phone?: string\<close>) is an \<open>option\<close>. Identifiers are uuid strings. The field
  \<open>level\<close> is a \<open>number\<close> that the store declares \<open>integer NOT NULL\<close>: an \<open>int\<close>.
\<close>

record Role =
  r_id :: string
  r_name :: string
  r_description :: "string option"
  r_level :: int

record Company =
  co_id :: string
  co_name :: string
  co_description :: "string option"
  co_address :: "string option"
  co_phone :: "string option"
  co_email :: "string option"
  co_is_active :: bool

record Site =
  st_id :: string
  st_company_id :: string
  st_name :: string
  st_description :: "string option"
  st_address :: "string option"
  st_phone :: "string option"
  st_is_active :: bool

record UserRole =
  ur_id :: string
  ur_role :: Role
  ur_company :: "Company option"
  ur_site :: "Site option"
  ur_is_active :: bool

record User =
  u_id :: string
  u_email :: string
  u_first_name :: string
  u_last_name :: string
  u_phone :: "string option"
  u_is_active :: bool
  u_roles :: "UserRole list"

section \<open>The dashboard (src/components/Dashboard.tsx)\<close>

text \<open>What a JavaScript expression throws.\<close>

datatype js_error = Error string | TypeError | SyntaxError

text \<open>
  \<open>Array.prototype.reduce\<close> called without an initial value: a \<open>TypeError\<close> on the
  empty array; otherwise the first element is the first accumulator and the callback
  runs over the rest from left to right, the accumulator as its first argument.
\<close>

fun reduce :: "('a \<Rightarrow> 'a \<Rightarrow> 'a) \<Rightarrow> 'a list \<Rightarrow> js_error + 'a" where
  "reduce f [] = Inl TypeError"
| "reduce f (x # xs) = Inr (foldl f x xs)"

text \<open>
  The callback of line 24:
  \<open>(highest, current) => current.role.level < highest.role.level ? current : highest\<close>.
\<close>

definition pick :: "UserRole \<Rightarrow> UserRole \<Rightarrow> UserRole" where
  "pick highest current =
     (if r_level (ur_role current) < r_level (ur_role highest) then current else highest)"

definition primaryRole :: "UserRole list \<Rightarrow> js_error + UserRole" where
  "primaryRole roles = reduce pick roles"

text \<open>
  What \<open>renderDashboard\<close> returns: one of the four role dashboards (three of them
  with the prop \<open>userRole\<close>) or the \<open>Unknown Role\<close> block, which shows the role's name.
\<close>

datatype element =
    SuperAdminDashboard
  | CompanyAdminDashboard UserRole
  | SiteManagerDashboard UserRole
  | CommercialDashboard UserRole
  | UnknownRole string

definition renderDashboard :: "UserRole \<Rightarrow> element" where
  "renderDashboard primary =
     (if r_name (ur_role primary) = ''Super Admin'' then SuperAdminDashboard
      else if r_name (ur_role primary) = ''Company Admin'' then CompanyAdminDashboard primary
      else if r_name (ur_role primary) = ''Site Manager'' then SiteManagerDashboard primary
      else if r_name (ur_role primary) = ''Commercial'' then CommercialDashboard primary
      else UnknownRole (r_name (ur_role primary)))"

text \<open>
  What \<open>Dashboard\<close> returns: the \<open>No Role Assigned\<close> block of lines 12 to 21, or the
  page of lines 48 to 55 with the \<open>Header\<close> (props \<open>user\<close> and \<open>primaryRole\<close>) and
  the element of \<open>renderDashboard\<close>.
\<close>

datatype page =
    NoRoleAssigned
  | DashboardPage User UserRole element

definition Dashboard :: "User option \<Rightarrow> js_error + page" where
  "Dashboard user =
     (case user of
        None \<Rightarrow> Inr NoRoleAssigned
      | Some u \<Rightarrow>
          if length (u_roles u) = 0 then Inr NoRoleAssigned
          else
            (case primaryRole (u_roles u) of
               Inl e \<Rightarrow> Inl e
             | Inr primary \<Rightarrow> Inr (DashboardPage u primary (renderDashboard primary))))"

subsection \<open>The queries a rendered page issues\<close>

text \<open>
  A request to the store: the table of \<open>supabase.from\<close> and the \<open>.eq\<close> filters, in
  the order of the source. The selected columns, \<open>.order\<close> and \<open>.limit\<close> are left out.
\<close>

datatype query = Query string "(string \<times> string) list"

text \<open>
  The requests of each role dashboard's \<open>useEffect\<close> when it mounts:
  \<open>fetchDashboardData\<close> (SuperAdminDashboard.tsx, no guard), \<open>fetchCompanyData\<close>
  (guard \<open>userRole.company\<close>), \<open>fetchSiteData\<close> (SiteManagerDashboard.tsx, guard
  \<open>userRole.site\<close>) and \<open>fetchCommercialData\<close> (guard \<open>user\<close>, the session user of
  \<open>useAuth\<close>). The \<open>Header\<close> and the two text blocks issue none.
\<close>

definition fetchDashboardData :: "query list" where
  "fetchDashboardData =
     [Query ''users'' [], Query ''companies'' [], Query ''sites'' [], Query ''sales'' [],
      Query ''proposals'' [], Query ''activity_logs'' []]"

definition fetchCompanyData :: "UserRole \<Rightarrow> query list" where
  "fetchCompanyData userRole =
     (case ur_company userRole of
        None \<Rightarrow> []
      | Some company \<Rightarrow>
          [Query ''user_roles'' [(''company_id'', co_id company)],
           Query ''sites'' [(''company_id'', co_id company)],
           Query ''sales'' [(''proposal.client.company_id'', co_id company)],
           Query ''proposals'' [(''client.company_id'', co_id company)],
           Query ''activity_logs'' [],
           Query ''sites'' [(''company_id'', co_id company)]])"

definition fetchSiteData :: "UserRole \<Rightarrow> query list" where
  "fetchSiteData userRole =
     (case ur_site userRole of
        None \<Rightarrow> []
      | Some site \<Rightarrow>
          [Query ''user_roles'' [(''site_id'', st_id site), (''role.name'', ''Commercial'')],
           Query ''sales'' [(''proposal.client.site_id'', st_id site)],
           Query ''proposals'' [(''client.site_id'', st_id site)],
           Query ''activity_logs'' [],
           Query ''user_roles'' [(''site_id'', st_id site), (''role.name'', ''Commercial'')]])"

definition fetchCommercialData :: "User option \<Rightarrow> query list" where
  "fetchCommercialData user =
     (case user of
        None \<Rightarrow> []
      | Some u \<Rightarrow>
          [Query ''sales'' [(''closed_by'', u_id u)],
           Query ''proposals'' [(''created_by'', u_id u)],
           Query ''clients'' [(''assigned_to'', u_id u)]])"

fun element_queries :: "User option \<Rightarrow> element \<Rightarrow> query list" where
  "element_queries user SuperAdminDashboard = fetchDashboardData"
| "element_queries user (CompanyAdminDashboard userRole) = fetchCompanyData userRole"
| "element_queries user (SiteManagerDashboard userRole) = fetchSiteData userRole"
| "element_queries user (CommercialDashboard userRole) = fetchCommercialData user"
| "element_queries user (UnknownRole n) = []"

fun page_queries :: "User option \<Rightarrow> page \<Rightarrow> query list" where
  "page_queries user NoRoleAssigned = []"
| "page_queries user (DashboardPage u primary el) = element_queries user el"

text \<open>The requests issued by mounting \<open>Dashboard\<close> for the session user; none when it throws.\<close>

definition Dashboard_queries :: "User option \<Rightarrow> query list" where
  "Dashboard_queries user =
     (case Dashboard user of Inl e \<Rightarrow> [] | Inr p \<Rightarrow> page_queries user p)"

section \<open>The auth context (contexts/AuthContext.tsx)\<close>

subsection \<open>The store behind the client\<close>

text \<open>
  The store as \<open>login\<close> and \<open>logout\<close> reach it. A row of \<open>users\<close> has the columns
  that \<open>login\<close> reads (\<open>is_active boolean DEFAULT true\<close> may be NULL: an \<open>option\<close>).
  A row of \<open>user_roles\<close> is kept in the shape the select of lines 57 to 65 returns it:
  its \<open>user_id\<close> and the \<open>UserRole\<close> with the embedded role, company and site. A row
  of \<open>activity_logs\<close> has the fields the two inserts write. \<open>sb_failing\<close> lists the
  tables whose requests fail (the network or the store answers with an error).
\<close>

record users_row =
  users_id :: string
  users_email :: string
  users_password_hash :: string
  users_first_name :: string
  users_last_name :: string
  users_phone :: "string option"
  users_is_active :: "bool option"

record activity_logs_row =
  al_user_id :: string
  al_action :: string
  al_resource_type :: string
  al_details :: "(string \<times> string) list"

record backend =
  sb_users :: "users_row list"
  sb_user_roles :: "(string \<times> UserRole) list"
  sb_activity_logs :: "activity_logs_row list"
  sb_failing :: "string list"

text \<open>What a request resolves to: \<open>{ data, error }\<close>, each of them null or not.\<close>

datatype 'a response = Response "'a option" "string option"

text \<open>
  Lines 39 to 44:
  \<open>from('users').select('*').eq('email', email).eq('is_active', true).single()\<close>.
  \<open>single\<close> answers with the row when exactly one row matches and with an error
  otherwise.
\<close>

definition select_users_single :: "backend \<Rightarrow> string \<Rightarrow> users_row response" where
  "select_users_single sb email =
     (if ''users'' \<in> set (sb_failing sb) then Response None (Some ''request failed'')
      else
        (case filter (\<lambda>r. users_email r = email \<and> users_is_active r = Some True) (sb_users sb) of
           [r] \<Rightarrow> Response (Some r) None
         | _ \<Rightarrow> Response None (Some ''PGRST116'')))"

text \<open>
  Lines 57 to 67:
  \<open>from('user_roles').select(...).eq('user_id', userData.id).eq('is_active', true)\<close>.
\<close>

definition select_user_roles :: "backend \<Rightarrow> string \<Rightarrow> UserRole list response" where
  "select_user_roles sb uid =
     (if ''user_roles'' \<in> set (sb_failing sb) then Response None (Some ''request failed'')
      else
        Response
          (Some (map snd (filter (\<lambda>(i, a). i = uid \<and> ur_is_active a) (sb_user_roles sb))))
          None)"

text \<open>
  \<open>from('activity_logs').insert(row)\<close>: the row is appended unless the request fails.
  Both callers await the request and drop its answer, so only the store is returned.
\<close>

definition insert_activity_logs :: "backend \<Rightarrow> activity_logs_row \<Rightarrow> backend" where
  "insert_activity_logs sb row =
     (if ''activity_logs'' \<in> set (sb_failing sb) then sb
      else sb\<lparr>sb_activity_logs := sb_activity_logs sb @ [row]\<rparr>)"

subsection \<open>The platform and the state\<close>

text \<open>
  The library primitives the provider calls are parameters of the model:
  \<open>bcrypt.compare(password, hash)\<close>, \<open>JSON.parse\<close> (which throws a \<open>SyntaxError\<close> on
  a text that is not JSON, and whose result \<open>setUser\<close> takes as a \<open>User | null\<close>) and
  \<open>JSON.stringify\<close>.
\<close>

record runtime =
  bcrypt_compare :: "string \<Rightarrow> string \<Rightarrow> bool"
  JSON_parse :: "string \<Rightarrow> js_error + User option"
  JSON_stringify :: "User \<Rightarrow> string"

text \<open>
  The state the provider reads and writes: its two \<open>useState\<close> cells, the browser's
  \<open>localStorage\<close> (\<open>getItem\<close> is the lookup, null when the key is absent) and the
  store.
\<close>

record app =
  user :: "User option"
  loading :: bool
  localStorage :: "string \<rightharpoonup> string"
  supabase :: backend

text \<open>How a call ends, next to the state it leaves.\<close>

datatype outcome = Ok | Throws js_error

text \<open>Lines 24 and 25: \<open>useState(null)\<close> and \<open>useState(true)\<close>.\<close>

definition AuthProvider_init :: "(string \<rightharpoonup> string) \<Rightarrow> backend \<Rightarrow> app" where
  "AuthProvider_init ls sb = \<lparr>user = None, loading = True, localStorage = ls, supabase = sb\<rparr>"

text \<open>
  The effect of lines 27 to 34, run once when the provider mounts. A string is truthy
  when it is not empty. Nothing catches what \<open>JSON.parse\<close> throws: the effect ends
  there, before \<open>setUser\<close> and \<open>setLoading(false)\<close>.
\<close>

definition AuthProvider_mount :: "runtime \<Rightarrow> app \<Rightarrow> outcome \<times> app" where
  "AuthProvider_mount rt s =
     (case localStorage s ''user'' of
        None \<Rightarrow> (Ok, s\<lparr>loading := False\<rparr>)
      | Some storedUser \<Rightarrow>
          if storedUser = [] then (Ok, s\<lparr>loading := False\<rparr>)
          else
            (case JSON_parse rt storedUser of
               Inl e \<Rightarrow> (Throws e, s)
             | Inr parsed \<Rightarrow> (Ok, s\<lparr>user := parsed, loading := False\<rparr>)))"

text \<open>
  \<open>login\<close>, lines 36 to 97. The \<open>catch\<close> of line 94 throws the error again, so each
  \<open>throw\<close> ends the call with the state as it is at that point. The branch
  \<open>userError || !userData\<close> is the last case below.
\<close>

definition login :: "runtime \<Rightarrow> string \<Rightarrow> string \<Rightarrow> app \<Rightarrow> outcome \<times> app" where
  "login rt email password s =
     (case select_users_single (supabase s) email of
        Response (Some userData) None \<Rightarrow>
          if \<not> bcrypt_compare rt password (users_password_hash userData)
          then (Throws (Error ''Invalid email or password''), s)
          else
            (case select_user_roles (supabase s) (users_id userData) of
               Response userRoles (Some rolesError) \<Rightarrow>
                 (Throws (Error ''Failed to fetch user roles''), s)
             | Response userRoles None \<Rightarrow>
                 (let u = \<lparr>u_id = users_id userData,
                           u_email = users_email userData,
                           u_first_name = users_first_name userData,
                           u_last_name = users_last_name userData,
                           u_phone = users_phone userData,
                           u_is_active = (users_is_active userData = Some True),
                           u_roles = (case userRoles of None \<Rightarrow> [] | Some rs \<Rightarrow> rs)\<rparr>;
                      s1 = s\<lparr>user := Some u\<rparr>;
                      s2 = s1\<lparr>localStorage := (localStorage s1)(''user'' \<mapsto> JSON_stringify rt u)\<rparr>;
                      s3 = s2\<lparr>supabase := insert_activity_logs (supabase s2)
                              \<lparr>al_user_id = u_id u, al_action = ''login'',
                               al_resource_type = ''auth'', al_details = [(''email'', email)]\<rparr>\<rparr>
                  in (Ok, s3)))
      | Response userData userError \<Rightarrow> (Throws (Error ''Invalid email or password''), s))"

text \<open>
  \<open>logout\<close>, lines 99 to 111. Its \<open>user\<close> is the constant of the render that made
  the closure, so it is an argument here: the render after a \<open>setUser\<close> passes the new
  value, a second call of the same closure passes the old one.
\<close>

definition logout :: "User option \<Rightarrow> app \<Rightarrow> outcome \<times> app" where
  "logout closure_user s =
     (let s1 = (case closure_user of
                  None \<Rightarrow> s
                | Some u \<Rightarrow>
                    s\<lparr>supabase := insert_activity_logs (supabase s)
                         \<lparr>al_user_id = u_id u, al_action = ''logout'',
                          al_resource_type = ''auth'', al_details = []\<rparr>\<rparr>);
          s2 = s1\<lparr>user := None\<rparr>;
          s3 = s2\<lparr>localStorage := (localStorage s2)(''user'' := None)\<rparr>
      in (Ok, s3))"

text \<open>
  The context value of lines 113 to 118, as a render with state \<open>s\<close> builds it.
\<close>

record AuthContextType =
  ctx_user :: "User option"
  ctx_loading :: bool
  ctx_login :: "string \<Rightarrow> string \<Rightarrow> app \<Rightarrow> outcome \<times> app"
  ctx_logout :: "app \<Rightarrow> outcome \<times> app"

definition AuthProvider_value :: "runtime \<Rightarrow> app \<Rightarrow> AuthContextType" where
  "AuthProvider_value rt s =
     \<lparr>ctx_user = user s, ctx_loading = loading s, ctx_login = login rt,
      ctx_logout = logout (user s)\<rparr>"

text \<open>
  \<open>useContext(AuthContext)\<close> for a component whose enclosing providers have the values
  \<open>providers\<close>, the nearest first: the nearest value, or the default of
  \<open>createContext\<close> (line 13: \<open>undefined\<close>, here \<open>None\<close>) when there is none.
\<close>

definition useContext :: "'c list \<Rightarrow> 'c option" where
  "useContext providers = (case providers of [] \<Rightarrow> None | v # outer \<Rightarrow> Some v)"

definition useAuth :: "'c list \<Rightarrow> js_error + 'c" where
  "useAuth providers =
     (case useContext providers of
        None \<Rightarrow> Inl (Error ''useAuth must be used within an AuthProvider'')
      | Some ctx \<Rightarrow> Inr ctx)"

section \<open>Row-level security of the store (the schema migration)\<close>

subsection \<open>Relations and policies\<close>

text \<open>
  The eleven tables of the migration. Lines 163 to 173 enable row-level security on
  each of them.
\<close>

datatype relation =
    Users | Roles | Permissions | Companies | Sites | UserRoles | RolePermissions
  | Clients | Proposals | Sales | ActivityLogs

definition row_security :: "relation \<Rightarrow> bool" where
  "row_security rel =
     (rel \<in> set [Users, Roles, Permissions, Companies, Sites, UserRoles, RolePermissions,
                 Clients, Proposals, Sales, ActivityLogs])"

text \<open>
  A \<open>CREATE POLICY\<close> of lines 386 to 599: its name, its table, its command
  (\<open>FOR SELECT\<close> or \<open>FOR ALL\<close>) and, for each sub-select (\<open>EXISTS (SELECT ...)\<close>) of
  its \<open>USING\<close> expression, the tables of the sub-select's \<open>FROM\<close> and \<open>JOIN\<close>
  clauses in the order of the source. A policy with no sub-select (a comparison with
  \<open>auth.uid()\<close>, or \<open>USING (true)\<close>) has none.
\<close>

datatype command = FOR_SELECT | FOR_ALL

record policy =
  pol_name :: string
  pol_relation :: relation
  pol_command :: command
  pol_sublinks :: "relation list list"

definition policies :: "policy list" where
  "policies =
     [\<lparr>pol_name = ''Users can view their own data'', pol_relation = Users,
        pol_command = FOR_SELECT, pol_sublinks = []\<rparr>,
      \<lparr>pol_name = ''Super admins can manage all users'', pol_relation = Users,
        pol_command = FOR_ALL, pol_sublinks = [[UserRoles, Roles]]\<rparr>,
      \<lparr>pol_name = ''Super admins can manage all companies'', pol_relation = Companies,
        pol_command = FOR_ALL, pol_sublinks = [[UserRoles, Roles]]\<rparr>,
      \<lparr>pol_name = ''Company admins can view their company'', pol_relation = Companies,
        pol_command = FOR_SELECT, pol_sublinks = [[UserRoles, Roles]]\<rparr>,
      \<lparr>pol_name = ''Super admins can manage all sites'', pol_relation = Sites,
        pol_command = FOR_ALL, pol_sublinks = [[UserRoles, Roles]]\<rparr>,
      \<lparr>pol_name = ''Company admins can manage their company sites'', pol_relation = Sites,
        pol_command = FOR_ALL, pol_sublinks = [[UserRoles, Roles]]\<rparr>,
      \<lparr>pol_name = ''Site managers can view their site'', pol_relation = Sites,
        pol_command = FOR_SELECT, pol_sublinks = [[UserRoles]]\<rparr>,
      \<lparr>pol_name = ''Users can view their own roles'', pol_relation = UserRoles,
        pol_command = FOR_SELECT, pol_sublinks = []\<rparr>,
      \<lparr>pol_name = ''Super admins can manage all user roles'', pol_relation = UserRoles,
        pol_command = FOR_ALL, pol_sublinks = [[UserRoles, Roles]]\<rparr>,
      \<lparr>pol_name = ''Users can view clients in their scope'', pol_relation = Clients,
        pol_command = FOR_SELECT,
        pol_sublinks = [[UserRoles, Roles], [UserRoles, Roles], [UserRoles]]\<rparr>,
      \<lparr>pol_name = ''Users can view proposals in their scope'', pol_relation = Proposals,
        pol_command = FOR_SELECT,
        pol_sublinks = [[UserRoles, Roles], [UserRoles, Roles, Clients], [UserRoles, Clients]]\<rparr>,
      \<lparr>pol_name = ''Users can view sales in their scope'', pol_relation = Sales,
        pol_command = FOR_SELECT,
        pol_sublinks = [[UserRoles, Roles], [UserRoles, Roles, Proposals, Clients],
                        [UserRoles, Proposals, Clients]]\<rparr>,
      \<lparr>pol_name = ''Users can view activity logs in their scope'', pol_relation = ActivityLogs,
        pol_command = FOR_SELECT, pol_sublinks = [[UserRoles, Roles]]\<rparr>,
      \<lparr>pol_name = ''Users can view roles'', pol_relation = Roles,
        pol_command = FOR_SELECT, pol_sublinks = []\<rparr>,
      \<lparr>pol_name = ''Users can view permissions'', pol_relation = Permissions,
        pol_command = FOR_SELECT, pol_sublinks = []\<rparr>,
      \<lparr>pol_name = ''Users can view role permissions'', pol_relation = RolePermissions,
        pol_command = FOR_SELECT, pol_sublinks = []\<rparr>]"

text \<open>
  The policies the store applies to a \<open>SELECT\<close> on a table (those \<open>FOR SELECT\<close> and
  those \<open>FOR ALL\<close>), and the tables that the sub-selects of their \<open>USING\<close>
  expressions read.
\<close>

definition select_policies :: "relation \<Rightarrow> policy list" where
  "select_policies rel =
     filter (\<lambda>p. pol_relation p = rel \<and> (pol_command p = FOR_SELECT \<or> pol_command p = FOR_ALL))
       policies"

definition sublink_relations :: "relation \<Rightarrow> relation list" where
  "sublink_relations rel =
     (if row_security rel then concat (concat (map pol_sublinks (select_policies rel))) else [])"

subsection \<open>A select under row-level security\<close>

text \<open>
  What the store raises: error 42P17,
  \<open>infinite recursion detected in policy for relation ...\<close>.
\<close>

datatype pg_error = infinite_recursion_in_policy relation

fun first_error :: "pg_error option list \<Rightarrow> pg_error option" where
  "first_error [] = None"
| "first_error (None # es) = first_error es"
| "first_error (Some e # es) = Some e"

text \<open>
  How the store rewrites a reference to a table in a statement of a role that is
  subject to row-level security (every role but the owner of the table and the roles
  with \<open>BYPASSRLS\<close>, which skip the policies). The policies of the table are added
  to the reference as a qualification. When that qualification has sub-selects, the
  table must not be among the tables whose policies are being expanded
  (\<open>activeRIRs\<close>), or the store raises the error; otherwise the table joins them and
  every table the sub-selects read is rewritten in turn. The first error ends the
  statement before any row is read. \<open>None\<close>: nothing is raised.
\<close>

function fireRIRrules :: "relation list \<Rightarrow> relation \<Rightarrow> pg_error option" where
  "fireRIRrules activeRIRs rel =
     (if sublink_relations rel = [] then None
      else if rel \<in> set activeRIRs then Some (infinite_recursion_in_policy rel)
      else first_error (map (fireRIRrules (activeRIRs @ [rel])) (sublink_relations rel)))"
  by pat_completeness auto
termination
proof (relation "measure (\<lambda>(activeRIRs, rel). card (UNIV - set activeRIRs))")
  show "wf (measure (\<lambda>(activeRIRs, rel). card (UNIV - set activeRIRs)))" by simp
next
  fix activeRIRs :: "relation list" and rel x :: relation
  assume new: "rel \<notin> set activeRIRs"
  have "(UNIV :: relation set) =
          {Users, Roles, Permissions, Companies, Sites, UserRoles, RolePermissions,
           Clients, Proposals, Sales, ActivityLogs}"
    by (auto intro: relation.exhaust)
  then have fin: "finite (UNIV :: relation set)" by (metis finite.emptyI finite.insertI)
  from new have "UNIV - set (activeRIRs @ [rel]) \<subset> UNIV - set activeRIRs" by auto
  then have "card (UNIV - set (activeRIRs @ [rel])) < card (UNIV - set activeRIRs)"
    by (intro psubset_card_mono finite_subset [OF _ fin]) auto
  then show "((activeRIRs @ [rel], x), (activeRIRs, rel))
               \<in> measure (\<lambda>(activeRIRs, rel). card (UNIV - set activeRIRs))"
    by simp
qed

declare fireRIRrules.simps [simp del]

text \<open>
  A \<open>SELECT\<close> on a table. For a role that bypasses row-level security the policies
  are not applied and every row is returned. For a role that is subject to it: the
  error of the rewrite, or the rows that satisfy the rewritten qualification. The
  qualification \<open>qual\<close>, the value of the policies' \<open>USING\<close> expressions on a row for
  the caller at hand, is a parameter: what is proved below holds for every
  qualification. A row is visible to the caller when the select returns it.
\<close>

definition select_rls ::
  "bool \<Rightarrow> relation \<Rightarrow> ('row \<Rightarrow> bool) \<Rightarrow> 'row list \<Rightarrow> pg_error + 'row list" where
  "select_rls bypass rel qual rows =
     (if bypass then Inr rows
      else
        (case fireRIRrules [] rel of
           Some e \<Rightarrow> Inl e
         | None \<Rightarrow> Inr (filter qual rows)))"

definition visible :: "bool \<Rightarrow> relation \<Rightarrow> ('row \<Rightarrow> bool) \<Rightarrow> 'row list \<Rightarrow> 'row \<Rightarrow> bool" where
  "visible bypass rel qual rows r =
     (case select_rls bypass rel qual rows of
        Inl e \<Rightarrow> False
      | Inr returned \<Rightarrow> r \<in> set returned)"

subsection \<open>Rows\<close>

text \<open>
  The columns of the rows that the boundary of the specification reads, under the
  names \<open>table_column\<close>. A primary key is a uuid; a column that references another
  table has no \<open>NOT NULL\<close> and may be NULL (\<open>None\<close>), as may \<open>user_roles.is_active\<close>.
  \<open>roles.name\<close> and \<open>roles.level\<close> are \<open>NOT NULL\<close>. The proposal keeps its amount
  (in cents) and status as well.
\<close>

record roles_row =
  roles_id :: string
  roles_name :: string
  roles_level :: int

record user_roles_row =
  user_roles_id :: string
  user_roles_user_id :: "string option"
  user_roles_role_id :: "string option"
  user_roles_company_id :: "string option"
  user_roles_site_id :: "string option"
  user_roles_is_active :: "bool option"

record clients_row =
  clients_id :: string
  clients_company_id :: "string option"
  clients_site_id :: "string option"
  clients_assigned_to :: "string option"

record proposals_row =
  proposals_id :: string
  proposals_client_id :: "string option"
  proposals_created_by :: "string option"
  proposals_amount :: int
  proposals_status :: "string option"

record sales_row =
  sales_id :: string
  sales_proposal_id :: "string option"
  sales_closed_by :: "string option"

record database =
  tbl_roles :: "roles_row list"
  tbl_user_roles :: "user_roles_row list"
  tbl_clients :: "clients_row list"
  tbl_proposals :: "proposals_row list"
  tbl_sales :: "sales_row list"

subsection \<open>The boundary of the specification\<close>

text \<open>
  The scope resolver and the access filter as the specification words them, to state
  what the specification expects of a select. The caller's active assignments are the active
  \<open>user_roles\<close> rows of the caller, each with its role. A primary assignment is one of
  minimum level. Its level gives the boundary: 1 \<open>Global\<close>, 2 \<open>CompanyScoped\<close> with the
  assignment's company, 3 \<open>SiteScoped\<close> with its site, 4 \<open>SelfScoped\<close> with the user;
  a user with no active assignment is \<open>SelfScoped\<close> too.
\<close>

datatype boundary =
    Global
  | CompanyScoped string
  | SiteScoped string
  | SelfScoped string

definition active_rows :: "database \<Rightarrow> string \<Rightarrow> user_roles_row list" where
  "active_rows db uid =
     filter (\<lambda>ur. user_roles_user_id ur = Some uid \<and> user_roles_is_active ur = Some True)
       (tbl_user_roles db)"

definition active_assignments :: "database \<Rightarrow> string \<Rightarrow> (roles_row \<times> user_roles_row) list" where
  "active_assignments db uid =
     concat (map (\<lambda>ur. map (\<lambda>r. (r, ur))
        (filter (\<lambda>r. user_roles_role_id ur = Some (roles_id r)) (tbl_roles db)))
        (active_rows db uid))"

definition spec_boundary_of :: "string \<Rightarrow> roles_row \<times> user_roles_row \<Rightarrow> boundary option" where
  "spec_boundary_of uid a =
     (if roles_level (fst a) = 1 then Some Global
      else if roles_level (fst a) = 2 then map_option CompanyScoped (user_roles_company_id (snd a))
      else if roles_level (fst a) = 3 then map_option SiteScoped (user_roles_site_id (snd a))
      else if roles_level (fst a) = 4 then Some (SelfScoped uid)
      else None)"

definition spec_primary :: "database \<Rightarrow> string \<Rightarrow> roles_row \<times> user_roles_row \<Rightarrow> bool" where
  "spec_primary db uid a =
     (a \<in> set (active_assignments db uid)
      \<and> list_all (\<lambda>b. roles_level (fst a) \<le> roles_level (fst b)) (active_assignments db uid))"

definition spec_resolves :: "database \<Rightarrow> string \<Rightarrow> boundary \<Rightarrow> bool" where
  "spec_resolves db uid B =
     (if active_assignments db uid = [] then B = SelfScoped uid
      else list_ex (\<lambda>a. spec_primary db uid a \<and> spec_boundary_of uid a = Some B)
             (active_assignments db uid))"

text \<open>
  A resource matches a boundary through its reference chain: a client by its own
  company, site and assignee; a proposal by its client's company and site and its own
  creator; a sale by the company and site of its proposal's client and its own closer.
\<close>

definition spec_visible_client :: "boundary \<Rightarrow> clients_row \<Rightarrow> bool" where
  "spec_visible_client B c =
     (case B of
        Global \<Rightarrow> True
      | CompanyScoped company \<Rightarrow> clients_company_id c = Some company
      | SiteScoped site \<Rightarrow> clients_site_id c = Some site
      | SelfScoped u \<Rightarrow> clients_assigned_to c = Some u)"

definition spec_visible_proposal :: "database \<Rightarrow> boundary \<Rightarrow> proposals_row \<Rightarrow> bool" where
  "spec_visible_proposal db B p =
     (case B of
        Global \<Rightarrow> True
      | SelfScoped u \<Rightarrow> proposals_created_by p = Some u
      | _ \<Rightarrow> list_ex (\<lambda>c. proposals_client_id p = Some (clients_id c) \<and> spec_visible_client B c)
               (tbl_clients db))"

definition spec_visible_sale :: "database \<Rightarrow> boundary \<Rightarrow> sales_row \<Rightarrow> bool" where
  "spec_visible_sale db B s =
     (case B of
        Global \<Rightarrow> True
      | SelfScoped u \<Rightarrow> sales_closed_by s = Some u
      | _ \<Rightarrow> list_ex (\<lambda>p. sales_proposal_id s = Some (proposals_id p) \<and> spec_visible_proposal db B p)
               (tbl_proposals db))"

section \<open>Example data\<close>

text \<open>
  The values the instances below are stated at: roles, two companies, a site, and
  users with their assignments.
\<close>

definition role_of :: "string \<Rightarrow> int \<Rightarrow> Role" where
  "role_of n l = \<lparr>r_id = ''role-'' @ n, r_name = n, r_description = None, r_level = l\<rparr>"

definition company1 :: Company where
  "company1 = \<lparr>co_id = ''company1'', co_name = ''TechCorp Solutions'', co_description = None,
     co_address = None, co_phone = None, co_email = None, co_is_active = True\<rparr>"

definition company2 :: Company where
  "company2 = \<lparr>co_id = ''company2'', co_name = ''Global Industries'', co_description = None,
     co_address = None, co_phone = None, co_email = None, co_is_active = True\<rparr>"

definition site1 :: Site where
  "site1 = \<lparr>st_id = ''site1'', st_company_id = ''company1'', st_name = ''TechCorp HQ'',
     st_description = None, st_address = None, st_phone = None, st_is_active = True\<rparr>"

definition assignment :: "string \<Rightarrow> Role \<Rightarrow> Company option \<Rightarrow> Site option \<Rightarrow> UserRole" where
  "assignment i r c st = \<lparr>ur_id = i, ur_role = r, ur_company = c, ur_site = st, ur_is_active = True\<rparr>"

definition user_with :: "UserRole list \<Rightarrow> User" where
  "user_with rs = \<lparr>u_id = ''user1'', u_email = ''admin@example.com'', u_first_name = ''Company'',
     u_last_name = ''Admin'', u_phone = None, u_is_active = True, u_roles = rs\<rparr>"

text \<open>
  A user that is Commercial at site 1 and Company Admin of both companies: two
  assignments share the minimum level 2.
\<close>

definition tied_user :: User where
  "tied_user = user_with
     [assignment ''a1'' (role_of ''Commercial'' 4) (Some company1) (Some site1),
      assignment ''a2'' (role_of ''Company Admin'' 2) (Some company1) None,
      assignment ''a3'' (role_of ''Company Admin'' 2) (Some company2) None]"

text \<open>A user whose only assignment has a role outside the catalog.\<close>

definition auditor_user :: User where
  "auditor_user = user_with [assignment ''a4'' (role_of ''Auditor'' 5) (Some company1) None]"

text \<open>
  Two rows of \<open>users\<close>, one active and one not, and a store that holds them with the
  first user's assignment; its argument lists the tables whose requests fail.
\<close>

definition admin_row :: users_row where
  "admin_row = \<lparr>users_id = ''user1'', users_email = ''admin@example.com'',
     users_password_hash = ''bcrypt:password123'', users_first_name = ''Company'',
     users_last_name = ''Admin'', users_phone = None, users_is_active = Some True\<rparr>"

definition retired_row :: users_row where
  "retired_row = \<lparr>users_id = ''user2'', users_email = ''retired@example.com'',
     users_password_hash = ''bcrypt:password123'', users_first_name = ''Former'',
     users_last_name = ''Employee'', users_phone = None, users_is_active = Some False\<rparr>"

definition example_backend :: "string list \<Rightarrow> backend" where
  "example_backend failing =
     \<lparr>sb_users = [admin_row, retired_row],
      sb_user_roles = [(''user1'', assignment ''a2'' (role_of ''Company Admin'' 2) (Some company1) None)],
      sb_activity_logs = [],
      sb_failing = failing\<rparr>"

text \<open>
  A platform for the instances. Its \<open>bcrypt.compare\<close> accepts the hash
  \<open>bcrypt:\<close> followed by the password. Its \<open>JSON.parse\<close> reads \<open>null\<close> and the one
  text its \<open>JSON.stringify\<close> writes for user 1, and throws on every other text, as
  \<open>JSON.parse\<close> does on the texts \<open>{\<close> and \<open>not json\<close>, the only other texts the
  instances use.
\<close>

definition example_runtime :: runtime where
  "example_runtime =
     \<lparr>bcrypt_compare = (\<lambda>password hash. hash = ''bcrypt:'' @ password),
      JSON_parse = (\<lambda>text.
         if text = ''null'' then Inr None
         else if text = ''{\"id\":\"user1\"}'' then Inr (Some (user_with []))
         else Inl SyntaxError),
      JSON_stringify = (\<lambda>u. ''{\"id\":\"'' @ u_id u @ ''\"}'')\<rparr>"


text \<open>
  The rows of the scenario of the specification: the role catalog of lines 192 to 197,
  a Commercial and a Site Manager of site 1 of company 1, a Company Admin of company
  2, a client of site 1 assigned to the Commercial, and the pending proposal of 75000
  (in cents) that the Commercial created for that client. The users' names stand for
  their uuids.
\<close>

definition roles_row_of :: "string \<Rightarrow> int \<Rightarrow> roles_row" where
  "roles_row_of n l = \<lparr>roles_id = ''role-'' @ n, roles_name = n, roles_level = l\<rparr>"

definition user_roles_row_of ::
  "string \<Rightarrow> string \<Rightarrow> string \<Rightarrow> string option \<Rightarrow> string option \<Rightarrow> user_roles_row" where
  "user_roles_row_of i u n c st =
     \<lparr>user_roles_id = i, user_roles_user_id = Some u, user_roles_role_id = Some (''role-'' @ n),
      user_roles_company_id = c, user_roles_site_id = st, user_roles_is_active = Some True\<rparr>"

definition scenario_client :: clients_row where
  "scenario_client = \<lparr>clients_id = ''client-C'', clients_company_id = Some ''company1'',
     clients_site_id = Some ''site1'', clients_assigned_to = Some ''commercial@site1''\<rparr>"

definition scenario_proposal :: proposals_row where
  "scenario_proposal =
     \<lparr>proposals_id = ''proposal-P'', proposals_client_id = Some ''client-C'',
      proposals_created_by = Some ''commercial@site1'', proposals_amount = 7500000,
      proposals_status = Some ''pending''\<rparr>"

definition scenario_db :: database where
  "scenario_db =
     \<lparr>tbl_roles = [roles_row_of ''Super Admin'' 1, roles_row_of ''Company Admin'' 2,
                   roles_row_of ''Site Manager'' 3, roles_row_of ''Commercial'' 4],
      tbl_user_roles =
        [user_roles_row_of ''ur1'' ''commercial@site1'' ''Commercial'' (Some ''company1'') (Some ''site1''),
         user_roles_row_of ''ur2'' ''sitemanager@site1'' ''Site Manager'' (Some ''company1'') (Some ''site1''),
         user_roles_row_of ''ur3'' ''companyadmin@company2'' ''Company Admin'' (Some ''company2'') None],
      tbl_clients = [scenario_client],
      tbl_proposals = [scenario_proposal],
      tbl_sales = []\<rparr>"

section \<open>Primary role resolution\<close>

definition lvl :: "UserRole \<Rightarrow> int" where
  "lvl a = r_level (ur_role a)"

lemma pick_cases: "pick h c = (if lvl c < lvl h then c else h)"
  by (simp add: pick_def lvl_def)

lemma foldl_pick_mem: "foldl pick x xs \<in> set (x # xs)"
proof (induction xs arbitrary: x)
  case Nil
  show ?case by simp
next
  case (Cons y ys)
  have "foldl pick (pick x y) ys \<in> set (pick x y # ys)" by (rule Cons.IH)
  moreover have "pick x y = x \<or> pick x y = y" by (simp add: pick_def)
  ultimately show ?case by auto
qed

lemma foldl_pick_le: "lvl (foldl pick x xs) \<le> lvl x"
proof (induction xs arbitrary: x)
  case Nil
  show ?case by simp
next
  case (Cons y ys)
  have "lvl (foldl pick (pick x y) ys) \<le> lvl (pick x y)" by (rule Cons.IH)
  moreover have "lvl (pick x y) \<le> lvl x" by (simp add: pick_cases)
  ultimately show ?case by simp
qed

lemma foldl_pick_lower: "z \<in> set xs \<Longrightarrow> lvl (foldl pick x xs) \<le> lvl z"
proof (induction xs arbitrary: x)
  case Nil
  then show ?case by simp
next
  case (Cons y ys)
  show ?case
  proof (cases "z = y")
    case True
    have "lvl (foldl pick (pick x y) ys) \<le> lvl (pick x y)" by (rule foldl_pick_le)
    moreover have "lvl (pick x y) \<le> lvl y" by (simp add: pick_cases)
    ultimately show ?thesis using True by simp
  next
    case False
    with Cons.prems have "z \<in> set ys" by simp
    then have "lvl (foldl pick (pick x y) ys) \<le> lvl z" by (rule Cons.IH)
    then show ?thesis by simp
  qed
qed

lemma foldl_pick_Min: "lvl (foldl pick x xs) = Min (lvl ` set (x # xs))"
proof (rule sym, rule Min_eqI)
  show "finite (lvl ` set (x # xs))" by simp
next
  fix v assume "v \<in> lvl ` set (x # xs)"
  then obtain z where z: "z \<in> set (x # xs)" and v: "v = lvl z" by auto
  show "lvl (foldl pick x xs) \<le> v"
  proof (cases "z = x")
    case True
    then show ?thesis using v foldl_pick_le by simp
  next
    case False
    with z have "z \<in> set xs" by simp
    then show ?thesis using v foldl_pick_lower by simp
  qed
next
  show "lvl (foldl pick x xs) \<in> lvl ` set (x # xs)"
    using foldl_pick_mem by blast
qed

text \<open>
  C2. For a user with at least one assignment, the dashboard renders the page whose
  primary role is one of the user's assignments, and the level of that assignment is
  the minimum of the levels of all the user's assignments.
\<close>

theorem primary_role_has_minimum_level:
  assumes "u_roles u \<noteq> []"
  shows "\<exists>primary el. Dashboard (Some u) = Inr (DashboardPage u primary el)
           \<and> primaryRole (u_roles u) = Inr primary
           \<and> primary \<in> set (u_roles u)
           \<and> r_level (ur_role primary) = Min ((\<lambda>a. r_level (ur_role a)) ` set (u_roles u))"
proof -
  from assms obtain x xs where xs: "u_roles u = x # xs" by (cases "u_roles u") auto
  let ?p = "foldl pick x xs"
  have p: "primaryRole (u_roles u) = Inr ?p" by (simp add: primaryRole_def xs)
  have d: "Dashboard (Some u) = Inr (DashboardPage u ?p (renderDashboard ?p))"
    using p by (simp add: Dashboard_def xs)
  have m: "?p \<in> set (u_roles u)" using foldl_pick_mem [of x xs] by (simp add: xs)
  have "lvl ?p = Min (lvl ` set (u_roles u))" using foldl_pick_Min [of x xs] by (simp add: xs)
  then have l: "r_level (ur_role ?p) = Min ((\<lambda>a. r_level (ur_role a)) ` set (u_roles u))"
    by (simp add: lvl_def [abs_def])
  from d p m l show ?thesis by blast
qed

theorem primary_role_has_minimum_level_witness:
  "u_roles tied_user \<noteq> []
   \<and> Dashboard (Some tied_user) =
       Inr (DashboardPage tied_user
              (assignment ''a2'' (role_of ''Company Admin'' 2) (Some company1) None)
              (CompanyAdminDashboard
                 (assignment ''a2'' (role_of ''Company Admin'' 2) (Some company1) None)))
   \<and> Min ((\<lambda>a. r_level (ur_role a)) ` set (u_roles tied_user)) = 2"
  using primary_role_has_minimum_level [of tied_user]
  by (simp add: tied_user_def user_with_def assignment_def role_of_def Dashboard_def
        primaryRole_def pick_def renderDashboard_def)

lemma foldl_pick_find:
  "find (\<lambda>a. lvl a = Min (lvl ` set (x # xs))) (x # xs) = Some (foldl pick x xs)"
proof (induction xs arbitrary: x)
  case Nil
  show ?case by simp
next
  case (Cons y ys)
  define Mx where "Mx = Min (lvl ` set (x # ys))"
  define My where "My = Min (lvl ` set (y # ys))"
  define M where "M = Min (lvl ` set (x # y # ys))"
  have My_le: "My \<le> lvl y" unfolding My_def by simp
  have Mx_le: "Mx \<le> lvl x" unfolding Mx_def by simp
  have M1: "M = min (lvl x) My" unfolding M_def My_def by simp
  have "set (x # y # ys) = insert y (set (x # ys))" by auto
  then have "M = Min (insert (lvl y) (lvl ` set (x # ys)))" unfolding M_def by simp
  also have "\<dots> = min (lvl y) Mx" unfolding Mx_def by (rule Min_insert) simp_all
  finally have M2: "M = min (lvl y) Mx" .
  have ihy: "find (\<lambda>a. lvl a = My) (y # ys) = Some (foldl pick y ys)"
    unfolding My_def by (rule Cons.IH)
  have ihx: "find (\<lambda>a. lvl a = Mx) (x # ys) = Some (foldl pick x ys)"
    unfolding Mx_def by (rule Cons.IH)
  have "find (\<lambda>a. lvl a = M) (x # y # ys) = Some (foldl pick x (y # ys))"
  proof (cases "lvl y < lvl x")
    case True
    then have pk: "pick x y = y" by (simp add: pick_cases)
    from True My_le M1 have eq: "M = My" by linarith
    from True My_le M1 have ne: "lvl x \<noteq> M" by linarith
    have "find (\<lambda>a. lvl a = M) (x # y # ys) = find (\<lambda>a. lvl a = M) (y # ys)"
      using ne by simp
    also have "\<dots> = Some (foldl pick y ys)" unfolding eq by (rule ihy)
    finally show ?thesis using pk by simp
  next
    case False
    then have pk: "pick x y = x" by (simp add: pick_cases)
    from False Mx_le M2 have eq: "M = Mx" by linarith
    show ?thesis
    proof (cases "lvl x = Mx")
      case True
      with ihx have "foldl pick x ys = x" by simp
      then show ?thesis using True pk eq by simp
    next
      case ne: False
      with Mx_le False have "lvl y \<noteq> Mx" by linarith
      then have "find (\<lambda>a. lvl a = M) (x # y # ys) = find (\<lambda>a. lvl a = Mx) ys"
        using ne unfolding eq by simp
      also have "\<dots> = find (\<lambda>a. lvl a = Mx) (x # ys)" using ne by simp
      finally show ?thesis using ihx pk by simp
    qed
  qed
  then show ?case unfolding M_def .
qed

text \<open>
  C8. When several assignments share the minimum level, the primary role is the first
  of them in the order of the collection: for every user with at least one assignment,
  the primary role of the rendered page is the first assignment of \<open>user.roles\<close> whose
  level is the minimum.
\<close>

theorem primary_role_is_first_of_minimum_level:
  assumes "u_roles u \<noteq> []"
  shows "\<exists>primary el. Dashboard (Some u) = Inr (DashboardPage u primary el)
           \<and> find (\<lambda>a. r_level (ur_role a) = Min ((\<lambda>a. r_level (ur_role a)) ` set (u_roles u)))
                (u_roles u) = Some primary"
proof -
  from assms obtain x xs where xs: "u_roles u = x # xs" by (cases "u_roles u") auto
  let ?p = "foldl pick x xs"
  have p: "primaryRole (u_roles u) = Inr ?p" by (simp add: primaryRole_def xs)
  have d: "Dashboard (Some u) = Inr (DashboardPage u ?p (renderDashboard ?p))"
    using p by (simp add: Dashboard_def xs)
  have "find (\<lambda>a. lvl a = Min (lvl ` set (u_roles u))) (u_roles u) = Some ?p"
    unfolding xs by (rule foldl_pick_find)
  then have f: "find (\<lambda>a. r_level (ur_role a) = Min ((\<lambda>a. r_level (ur_role a)) ` set (u_roles u)))
                  (u_roles u) = Some ?p"
    by (simp add: lvl_def [abs_def])
  from d f show ?thesis by blast
qed

theorem primary_role_is_first_of_minimum_level_witness:
  "u_roles tied_user \<noteq> []
   \<and> r_level (ur_role (u_roles tied_user ! 1)) = 2
   \<and> r_level (ur_role (u_roles tied_user ! 2)) = 2
   \<and> find (\<lambda>a. r_level (ur_role a) = Min ((\<lambda>a. r_level (ur_role a)) ` set (u_roles tied_user)))
        (u_roles tied_user) = Some (u_roles tied_user ! 1)
   \<and> (\<exists>el. Dashboard (Some tied_user) = Inr (DashboardPage tied_user (u_roles tied_user ! 1) el))"
  using primary_role_is_first_of_minimum_level [of tied_user]
  by (simp add: tied_user_def user_with_def assignment_def role_of_def)

section \<open>The role dispatch and the user without a role\<close>

text \<open>
  C9. When the name of the primary role is none of Super Admin, Company Admin, Site
  Manager and Commercial, the dashboard renders the Unknown Role block with that name
  in place of a role dashboard, and mounting the page issues no query.
\<close>

theorem unknown_role_name_falls_through:
  assumes "primaryRole (u_roles u) = Inr primary"
    and "r_name (ur_role primary) \<notin> {''Super Admin'', ''Company Admin'', ''Site Manager'', ''Commercial''}"
  shows "renderDashboard primary = UnknownRole (r_name (ur_role primary))
         \<and> Dashboard (Some u) = Inr (DashboardPage u primary (UnknownRole (r_name (ur_role primary))))
         \<and> Dashboard_queries (Some u) = []"
proof -
  have r: "renderDashboard primary = UnknownRole (r_name (ur_role primary))"
    using assms(2) by (simp add: renderDashboard_def)
  have ne: "u_roles u \<noteq> []" using assms(1) by (auto simp: primaryRole_def)
  have d: "Dashboard (Some u) = Inr (DashboardPage u primary (UnknownRole (r_name (ur_role primary))))"
    using assms(1) ne r by (simp add: Dashboard_def)
  have q: "Dashboard_queries (Some u) = []" by (simp add: Dashboard_queries_def d)
  from r d q show ?thesis by blast
qed

theorem unknown_role_name_falls_through_witness:
  "primaryRole (u_roles auditor_user) = Inr (assignment ''a4'' (role_of ''Auditor'' 5) (Some company1) None)
   \<and> ''Auditor'' \<notin> {''Super Admin'', ''Company Admin'', ''Site Manager'', ''Commercial''}
   \<and> Dashboard (Some auditor_user) =
       Inr (DashboardPage auditor_user
              (assignment ''a4'' (role_of ''Auditor'' 5) (Some company1) None) (UnknownRole ''Auditor''))
   \<and> Dashboard_queries (Some auditor_user) = []"
proof -
  have p: "primaryRole (u_roles auditor_user) =
             Inr (assignment ''a4'' (role_of ''Auditor'' 5) (Some company1) None)"
    by (simp add: auditor_user_def user_with_def primaryRole_def)
  have n: "r_name (ur_role (assignment ''a4'' (role_of ''Auditor'' 5) (Some company1) None))
             \<notin> {''Super Admin'', ''Company Admin'', ''Site Manager'', ''Commercial''}"
    by (simp add: assignment_def role_of_def)
  show ?thesis
    using unknown_role_name_falls_through [OF p n] p
    by (simp add: assignment_def role_of_def)
qed

text \<open>
  C4. For a user with no assignment the dashboard returns the No Role Assigned block,
  which is a rendered page and not an error, and mounting it issues no query: the
  return of line 12 comes before any role dashboard is rendered.
\<close>

theorem no_assignment_short_circuits:
  assumes "u_roles u = []"
  shows "Dashboard (Some u) = Inr NoRoleAssigned \<and> Dashboard_queries (Some u) = []"
  using assms by (simp add: Dashboard_def Dashboard_queries_def)

theorem no_assignment_short_circuits_witness:
  "u_roles (user_with []) = []
   \<and> Dashboard (Some (user_with [])) = Inr NoRoleAssigned
   \<and> Dashboard_queries (Some (user_with [])) = []"
  using no_assignment_short_circuits [of "user_with []"]
  by (simp add: user_with_def)

section \<open>Login, start-up and logout\<close>

lemma select_users_single_none:
  assumes "\<not> list_ex (\<lambda>r. users_email r = email \<and> users_is_active r = Some True) (sb_users sb)"
  shows "\<exists>e. select_users_single sb email = Response None (Some e)"
proof -
  from assms have "filter (\<lambda>r. users_email r = email \<and> users_is_active r = Some True) (sb_users sb) = []"
    by (simp add: list_ex_iff filter_empty_conv)
  then show ?thesis by (simp add: select_users_single_def)
qed

lemma select_users_single_one:
  assumes "filter (\<lambda>r. users_email r = email \<and> users_is_active r = Some True) (sb_users sb) = [row]"
  shows "select_users_single sb email = Response (Some row) None
         \<or> (\<exists>e. select_users_single sb email = Response None (Some e))"
  using assms by (simp add: select_users_single_def)

text \<open>
  C3. A login with an email that no active row of \<open>users\<close> has, and a login with the
  email of an active row and a password that \<open>bcrypt.compare\<close> rejects for the row's
  hash, end the same way: both throw the error Invalid email or password and leave the
  state (session user, local storage, store) as it was.
\<close>

theorem login_failures_are_uniform:
  assumes unknown: "\<not> list_ex (\<lambda>r. users_email r = email1 \<and> users_is_active r = Some True)
                        (sb_users (supabase s))"
    and known: "filter (\<lambda>r. users_email r = email2 \<and> users_is_active r = Some True)
                  (sb_users (supabase s)) = [row]"
    and mismatch: "\<not> bcrypt_compare rt password2 (users_password_hash row)"
  shows "login rt email1 password1 s = (Throws (Error ''Invalid email or password''), s)
         \<and> login rt email2 password2 s = (Throws (Error ''Invalid email or password''), s)"
proof
  from select_users_single_none [OF unknown]
  obtain e where "select_users_single (supabase s) email1 = Response None (Some e)" ..
  then show "login rt email1 password1 s = (Throws (Error ''Invalid email or password''), s)"
    by (simp add: login_def)
next
  from select_users_single_one [OF known]
  show "login rt email2 password2 s = (Throws (Error ''Invalid email or password''), s)"
  proof
    assume "select_users_single (supabase s) email2 = Response (Some row) None"
    then show ?thesis using mismatch by (simp add: login_def)
  next
    assume "\<exists>e. select_users_single (supabase s) email2 = Response None (Some e)"
    then obtain e where "select_users_single (supabase s) email2 = Response None (Some e)" ..
    then show ?thesis by (simp add: login_def)
  qed
qed

theorem login_failures_are_uniform_witness:
  "\<not> list_ex (\<lambda>r. users_email r = ''retired@example.com'' \<and> users_is_active r = Some True)
        (sb_users (example_backend []))
   \<and> filter (\<lambda>r. users_email r = ''admin@example.com'' \<and> users_is_active r = Some True)
        (sb_users (example_backend [])) = [admin_row]
   \<and> \<not> bcrypt_compare example_runtime ''letmein'' (users_password_hash admin_row)
   \<and> login example_runtime ''retired@example.com'' ''password123''
        (AuthProvider_init Map.empty (example_backend []))
      = (Throws (Error ''Invalid email or password''), AuthProvider_init Map.empty (example_backend []))
   \<and> login example_runtime ''admin@example.com'' ''letmein''
        (AuthProvider_init Map.empty (example_backend []))
      = (Throws (Error ''Invalid email or password''), AuthProvider_init Map.empty (example_backend []))"
proof -
  let ?s = "AuthProvider_init Map.empty (example_backend [])"
  have u: "\<not> list_ex (\<lambda>r. users_email r = ''retired@example.com'' \<and> users_is_active r = Some True)
             (sb_users (supabase ?s))"
    by (simp add: AuthProvider_init_def example_backend_def admin_row_def retired_row_def)
  have k: "filter (\<lambda>r. users_email r = ''admin@example.com'' \<and> users_is_active r = Some True)
             (sb_users (supabase ?s)) = [admin_row]"
    by (simp add: AuthProvider_init_def example_backend_def admin_row_def retired_row_def)
  have m: "\<not> bcrypt_compare example_runtime ''letmein'' (users_password_hash admin_row)"
    by (simp add: example_runtime_def admin_row_def)
  show ?thesis
    using login_failures_are_uniform [OF u k m, of "''password123''"] u k m
    by (simp add: AuthProvider_init_def)
qed

text \<open>
  C5. When the user row is found and the password verified, and the request for the
  user's roles answers with an error, \<open>login\<close> throws Failed to fetch user roles and
  leaves the state as it was: the session user is not set and nothing is written to
  local storage.
\<close>

theorem role_fetch_failure_aborts_login:
  assumes "select_users_single (supabase s) email = Response (Some row) None"
    and "bcrypt_compare rt password (users_password_hash row)"
    and "select_user_roles (supabase s) (users_id row) = Response userRoles (Some rolesError)"
  shows "login rt email password s = (Throws (Error ''Failed to fetch user roles''), s)
         \<and> user (snd (login rt email password s)) = user s
         \<and> localStorage (snd (login rt email password s)) = localStorage s"
  using assms by (simp add: login_def)

theorem role_fetch_failure_aborts_login_witness:
  "select_users_single (example_backend [''user_roles'']) ''admin@example.com''
     = Response (Some admin_row) None
   \<and> bcrypt_compare example_runtime ''password123'' (users_password_hash admin_row)
   \<and> select_user_roles (example_backend [''user_roles'']) (users_id admin_row)
     = Response None (Some ''request failed'')
   \<and> login example_runtime ''admin@example.com'' ''password123''
        (AuthProvider_init Map.empty (example_backend [''user_roles'']))
      = (Throws (Error ''Failed to fetch user roles''),
         AuthProvider_init Map.empty (example_backend [''user_roles'']))
   \<and> user (snd (login example_runtime ''admin@example.com'' ''password123''
        (AuthProvider_init Map.empty (example_backend [''user_roles''])))) = None
   \<and> localStorage (snd (login example_runtime ''admin@example.com'' ''password123''
        (AuthProvider_init Map.empty (example_backend [''user_roles''])))) ''user'' = None"
proof -
  let ?s = "AuthProvider_init Map.empty (example_backend [''user_roles''])"
  have a: "select_users_single (supabase ?s) ''admin@example.com'' = Response (Some admin_row) None"
    by (simp add: AuthProvider_init_def select_users_single_def example_backend_def
          admin_row_def retired_row_def)
  have b: "bcrypt_compare example_runtime ''password123'' (users_password_hash admin_row)"
    by (simp add: example_runtime_def admin_row_def)
  have c: "select_user_roles (supabase ?s) (users_id admin_row) = Response None (Some ''request failed'')"
    by (simp add: AuthProvider_init_def select_user_roles_def example_backend_def)
  show ?thesis
    using role_fetch_failure_aborts_login [OF a b c] a b c
    by (simp add: AuthProvider_init_def)
qed

text \<open>A login that succeeds, for comparison: the session record is stored and the login logged.\<close>

lemma login_succeeds_example:
  "fst (login example_runtime ''admin@example.com'' ''password123''
        (AuthProvider_init Map.empty (example_backend []))) = Ok
   \<and> localStorage (snd (login example_runtime ''admin@example.com'' ''password123''
        (AuthProvider_init Map.empty (example_backend [])))) ''user'' = Some ''{\"id\":\"user1\"}''
   \<and> map al_action (sb_activity_logs (supabase (snd (login example_runtime ''admin@example.com'' ''password123''
        (AuthProvider_init Map.empty (example_backend [])))))) = [''login'']"
  by (simp add: login_def AuthProvider_init_def select_users_single_def select_user_roles_def
        example_backend_def admin_row_def retired_row_def example_runtime_def
        insert_activity_logs_def Let_def)

text \<open>
  C6, as amended. At start-up, when no record is stored under the key \<open>user\<close>, or
  the stored text is empty, the effect ends without an error in the logged-out state
  with loading finished; when the stored text is not empty and \<open>JSON.parse\<close> reads it
  as a User record, the effect ends without an error with that user as the session
  user; and when \<open>JSON.parse\<close> rejects the stored text, the effect throws that error
  and leaves the state as it was, loading included.
\<close>

theorem session_restored_at_startup:
  "(ls ''user'' = None \<or> ls ''user'' = Some [] \<longrightarrow>
      AuthProvider_mount rt (AuthProvider_init ls sb)
        = (Ok, \<lparr>user = None, loading = False, localStorage = ls, supabase = sb\<rparr>))
   \<and> (ls ''user'' = Some stored \<and> stored \<noteq> [] \<and> JSON_parse rt stored = Inr (Some u) \<longrightarrow>
      AuthProvider_mount rt (AuthProvider_init ls sb)
        = (Ok, \<lparr>user = Some u, loading = False, localStorage = ls, supabase = sb\<rparr>))
   \<and> (ls ''user'' = Some stored \<and> stored \<noteq> [] \<and> JSON_parse rt stored = Inl e \<longrightarrow>
      AuthProvider_mount rt (AuthProvider_init ls sb)
        = (Throws e, \<lparr>user = None, loading = True, localStorage = ls, supabase = sb\<rparr>))"
  by (auto simp: AuthProvider_mount_def AuthProvider_init_def)

theorem session_restored_at_startup_witness:
  "Map.empty ''user'' = (None :: string option)
   \<and> AuthProvider_mount example_runtime (AuthProvider_init Map.empty (example_backend []))
        = (Ok, \<lparr>user = None, loading = False, localStorage = Map.empty, supabase = example_backend []\<rparr>)
   \<and> [''user'' \<mapsto> ''{\"id\":\"user1\"}''] ''user'' = Some ''{\"id\":\"user1\"}''
   \<and> ''{\"id\":\"user1\"}'' \<noteq> []
   \<and> JSON_parse example_runtime ''{\"id\":\"user1\"}'' = Inr (Some (user_with []))
   \<and> AuthProvider_mount example_runtime
        (AuthProvider_init [''user'' \<mapsto> ''{\"id\":\"user1\"}''] (example_backend []))
        = (Ok, \<lparr>user = Some (user_with []), loading = False,
                localStorage = [''user'' \<mapsto> ''{\"id\":\"user1\"}''], supabase = example_backend []\<rparr>)
   \<and> [''user'' \<mapsto> ''not json''] ''user'' = Some ''not json''
   \<and> ''not json'' \<noteq> []
   \<and> JSON_parse example_runtime ''not json'' = Inl SyntaxError
   \<and> AuthProvider_mount example_runtime
        (AuthProvider_init [''user'' \<mapsto> ''not json''] (example_backend []))
        = (Throws SyntaxError, \<lparr>user = None, loading = True,
                localStorage = [''user'' \<mapsto> ''not json''], supabase = example_backend []\<rparr>)"
  using session_restored_at_startup [where ls = Map.empty and rt = example_runtime
      and sb = "example_backend []"]
    session_restored_at_startup [where ls = "[''user'' \<mapsto> ''{\"id\":\"user1\"}'']"
      and stored = "''{\"id\":\"user1\"}''" and rt = example_runtime and u = "user_with []"
      and sb = "example_backend []"]
    session_restored_at_startup [where ls = "[''user'' \<mapsto> ''not json'']"
      and stored = "''not json''" and rt = example_runtime and e = SyntaxError
      and sb = "example_backend []"]
  by (simp add: example_runtime_def)

text \<open>
  C6 as stated fails on a malformed record: for the stored text \<open>{\<close>, which
  \<open>JSON.parse\<close> rejects, the start-up effect throws the \<open>SyntaxError\<close> and
  \<open>loading\<close> stays true.
\<close>

theorem malformed_session_record_throws:
  "JSON_parse example_runtime ''{'' = Inl SyntaxError
   \<and> AuthProvider_mount example_runtime (AuthProvider_init [''user'' \<mapsto> ''{''] (example_backend []))
       = (Throws SyntaxError, AuthProvider_init [''user'' \<mapsto> ''{''] (example_backend []))
   \<and> loading (snd (AuthProvider_mount example_runtime
         (AuthProvider_init [''user'' \<mapsto> ''{''] (example_backend [])))) = True"
  by (simp add: AuthProvider_mount_def AuthProvider_init_def example_runtime_def)

text \<open>
  C7. \<open>logout\<close> never throws and leaves the session cleared, whatever session user
  its closure holds: after a first call and again after a second call the session user
  is null and no record is stored under the key \<open>user\<close>, and the second call leaves
  local storage as the first left it.
\<close>

theorem logout_twice_clears_session:
  "fst (logout c1 s) = Ok
   \<and> user (snd (logout c1 s)) = None
   \<and> localStorage (snd (logout c1 s)) ''user'' = None
   \<and> fst (logout c2 (snd (logout c1 s))) = Ok
   \<and> user (snd (logout c2 (snd (logout c1 s)))) = None
   \<and> localStorage (snd (logout c2 (snd (logout c1 s)))) ''user'' = None
   \<and> localStorage (snd (logout c2 (snd (logout c1 s)))) = localStorage (snd (logout c1 s))"
  by (simp add: logout_def Let_def split: option.split)

text \<open>
  C10. \<open>useAuth\<close> in a component with no enclosing \<open>AuthProvider\<close> throws the error
  useAuth must be used within an AuthProvider; in a component inside a provider it
  returns the context value of the nearest provider.
\<close>

theorem useAuth_outside_provider_throws:
  "useAuth [] = Inl (Error ''useAuth must be used within an AuthProvider'')
   \<and> useAuth (AuthProvider_value rt s # outer) = Inr (AuthProvider_value rt s)"
  by (simp add: useAuth_def useContext_def)

section \<open>Visibility under row-level security\<close>

lemma sublink_relations_simps:
  "sublink_relations Roles = []"
  "sublink_relations UserRoles = [UserRoles, Roles]"
  "sublink_relations Clients = [UserRoles, Roles, UserRoles, Roles, UserRoles]"
  "sublink_relations Proposals = [UserRoles, Roles, UserRoles, Roles, Clients, UserRoles, Clients]"
  "sublink_relations Sales =
     [UserRoles, Roles, UserRoles, Roles, Proposals, Clients, UserRoles, Proposals, Clients]"
  by (simp_all add: sublink_relations_def select_policies_def policies_def row_security_def)

text \<open>
  The policy Super admins can manage all user roles reads \<open>user_roles\<close> in its own
  \<open>USING\<close> expression: whenever the policies of \<open>user_roles\<close> are expanded, the
  rewrite meets \<open>user_roles\<close> again and raises.
\<close>

lemma user_roles_policy_recurses:
  assumes "UserRoles \<notin> set activeRIRs"
  shows "fireRIRrules activeRIRs UserRoles = Some (infinite_recursion_in_policy UserRoles)"
  using assms
  by (simp add: fireRIRrules.simps [of activeRIRs UserRoles]
        fireRIRrules.simps [of "activeRIRs @ [UserRoles]" UserRoles] sublink_relations_simps)

lemma rewrite_raises:
  "fireRIRrules [] Clients = Some (infinite_recursion_in_policy UserRoles)"
  "fireRIRrules [] Proposals = Some (infinite_recursion_in_policy UserRoles)"
  "fireRIRrules [] Sales = Some (infinite_recursion_in_policy UserRoles)"
  by (simp_all add: fireRIRrules.simps [of _ Clients] fireRIRrules.simps [of _ Proposals]
        fireRIRrules.simps [of _ Sales] user_roles_policy_recurses sublink_relations_simps)

text \<open>
  A select on \<open>roles\<close>, whose one policy is \<open>USING (true)\<close>, raises nothing and
  returns the rows of its qualification. A role that bypasses row-level security sees
  every row of every table, whatever its assignments.
\<close>

lemma select_roles_returns: "select_rls False Roles qual rows = Inr (filter qual rows)"
  by (simp add: select_rls_def fireRIRrules.simps sublink_relations_simps)

lemma bypass_sees_every_row: "visible True rel qual rows r = (r \<in> set rows)"
  by (simp add: visible_def select_rls_def)

text \<open>
  C1 fails on the store. In the scenario of the specification the boundary resolved
  for the Site Manager of site 1 is SiteScoped site 1 and the proposal, whose client
  is of site 1, matches it: by the specification the proposal is visible to the Site
  Manager. For a caller subject to row-level security the select on \<open>proposals\<close>
  raises the recursion error of \<open>user_roles\<close> and returns no row, whatever the
  qualification, so the proposal is not visible. A select on \<open>clients\<close>,
  \<open>proposals\<close> or \<open>sales\<close> raises the same error for every such caller, whatever
  the rows.
\<close>

theorem scenario_select_raises:
  "spec_resolves scenario_db ''sitemanager@site1'' (SiteScoped ''site1'')
   \<and> spec_visible_proposal scenario_db (SiteScoped ''site1'') scenario_proposal
   \<and> scenario_proposal \<in> set (tbl_proposals scenario_db)
   \<and> select_rls False Proposals qual (tbl_proposals scenario_db)
       = Inl (infinite_recursion_in_policy UserRoles)
   \<and> \<not> visible False Proposals qual (tbl_proposals scenario_db) scenario_proposal
   \<and> select_rls False Clients qual_c rows_c = Inl (infinite_recursion_in_policy UserRoles)
   \<and> select_rls False Proposals qual_p rows_p = Inl (infinite_recursion_in_policy UserRoles)
   \<and> select_rls False Sales qual_s rows_s = Inl (infinite_recursion_in_policy UserRoles)"
proof -
  have r: "spec_resolves scenario_db ''sitemanager@site1'' (SiteScoped ''site1'')"
    by (simp add: spec_resolves_def spec_primary_def spec_boundary_of_def active_assignments_def
          active_rows_def scenario_db_def roles_row_of_def user_roles_row_of_def)
  have v: "spec_visible_proposal scenario_db (SiteScoped ''site1'') scenario_proposal"
    by (simp add: spec_visible_proposal_def spec_visible_client_def scenario_db_def
          scenario_proposal_def scenario_client_def)
  have m: "scenario_proposal \<in> set (tbl_proposals scenario_db)"
    by (simp add: scenario_db_def)
  have s: "select_rls False Proposals qual (tbl_proposals scenario_db)
             = Inl (infinite_recursion_in_policy UserRoles)"
    by (simp add: select_rls_def rewrite_raises)
  have p: "select_rls False Proposals qual_p rows_p = Inl (infinite_recursion_in_policy UserRoles)"
    by (simp add: select_rls_def rewrite_raises)
  have c: "select_rls False Clients qual_c rows_c = Inl (infinite_recursion_in_policy UserRoles)"
    by (simp add: select_rls_def rewrite_raises)
  have sa: "select_rls False Sales qual_s rows_s = Inl (infinite_recursion_in_policy UserRoles)"
    by (simp add: select_rls_def rewrite_raises)
  have n: "\<not> visible False Proposals qual (tbl_proposals scenario_db) scenario_proposal"
    by (simp add: visible_def s)
  from r v m s n c p sa show ?thesis by simp
qed

end
